theory Spec2Isabelle
  imports Complex_Main "HOL-Library.Monad_Syntax"
begin

section \<open>Floating-point values\<close>

text \<open>
  The module \<^verbatim>\<open>gammapy/stats/variability.py\<close> computes with NumPy arrays of
  IEEE-754 doubles. An array entry is modelled as a value that is either the
  not-a-number marker, one of the two infinities, or a finite number. The arithmetic
  on finite numbers is exact real arithmetic: rounding, overflow and underflow are
  not modelled, and there is a single zero (it behaves as \<^verbatim>\<open>+0.0\<close>). Everything
  IEEE-754 prescribes for the special values is written out: an operation on a NaN
  is a NaN, \<^verbatim>\<open>inf - inf\<close>, \<^verbatim>\<open>0 * inf\<close>, \<^verbatim>\<open>0 / 0\<close> and \<^verbatim>\<open>inf / inf\<close> are NaN,
  a non-zero number divided by zero is an infinity, and the square root of a negative
  number is a NaN. NumPy reports these cases with a warning, never with an exception.
\<close>

datatype fval = NaN | PInf | NInf | Fin real

fun fneg :: "fval \<Rightarrow> fval" where
  "fneg NaN = NaN"
| "fneg PInf = NInf"
| "fneg NInf = PInf"
| "fneg (Fin a) = Fin (- a)"

fun fadd :: "fval \<Rightarrow> fval \<Rightarrow> fval" where
  "fadd NaN y = NaN"
| "fadd x NaN = NaN"
| "fadd PInf NInf = NaN"
| "fadd NInf PInf = NaN"
| "fadd PInf y = PInf"
| "fadd NInf y = NInf"
| "fadd x PInf = PInf"
| "fadd x NInf = NInf"
| "fadd (Fin a) (Fin b) = Fin (a + b)"

definition fsub :: "fval \<Rightarrow> fval \<Rightarrow> fval" where
  "fsub x y = fadd x (fneg y)"

text \<open>The sign of a value that is not a NaN: \<open>True\<close> for the negative ones.\<close>

fun is_neg :: "fval \<Rightarrow> bool" where
  "is_neg NInf = True"
| "is_neg (Fin a) = (a < 0)"
| "is_neg x = False"

fun is_zero :: "fval \<Rightarrow> bool" where
  "is_zero (Fin a) = (a = 0)"
| "is_zero x = False"

fun is_fin :: "fval \<Rightarrow> bool" where
  "is_fin (Fin a) = True"
| "is_fin x = False"

definition signed_inf :: "bool \<Rightarrow> fval" where
  "signed_inf neg = (if neg then NInf else PInf)"

fun fmul :: "fval \<Rightarrow> fval \<Rightarrow> fval" where
  "fmul NaN y = NaN"
| "fmul x NaN = NaN"
| "fmul (Fin a) (Fin b) = Fin (a * b)"
| "fmul x y =
     (if is_zero x \<or> is_zero y then NaN else signed_inf (is_neg x \<noteq> is_neg y))"

fun fdiv :: "fval \<Rightarrow> fval \<Rightarrow> fval" where
  "fdiv NaN y = NaN"
| "fdiv x NaN = NaN"
| "fdiv (Fin a) (Fin b) =
     (if b = 0 then (if a = 0 then NaN else signed_inf (a < 0)) else Fin (a / b))"
| "fdiv (Fin a) y = Fin 0"
| "fdiv x (Fin b) = signed_inf (is_neg x \<noteq> (b < 0))"
| "fdiv x y = NaN"

fun fsqrt :: "fval \<Rightarrow> fval" where
  "fsqrt NaN = NaN"
| "fsqrt PInf = PInf"
| "fsqrt NInf = NaN"
| "fsqrt (Fin a) = (if a < 0 then NaN else Fin (sqrt a))"

fun fabs :: "fval \<Rightarrow> fval" where
  "fabs NaN = NaN"
| "fabs PInf = PInf"
| "fabs NInf = PInf"
| "fabs (Fin a) = Fin \<bar>a\<bar>"

text \<open>\<^verbatim>\<open>x ** 2\<close>\<close>

definition fsq :: "fval \<Rightarrow> fval" where
  "fsq x = fmul x x"

text \<open>An integer count used in float arithmetic, as NumPy converts it.\<close>

definition of_count :: "int \<Rightarrow> fval" where
  "of_count n = Fin (of_int n)"


section \<open>Reductions of a one-dimensional array\<close>

text \<open>
  \<^verbatim>\<open>np.sum\<close>: the plain sum, in which a NaN entry makes the result NaN.
  \<^verbatim>\<open>np.nansum\<close>: NaN entries are replaced by zero, then summed.
  \<^verbatim>\<open>np.count_nonzero(~np.isnan(x))\<close>: the number of entries that are not NaN.
  \<^verbatim>\<open>np.nanmean\<close>: the NaN-aware sum divided by that count (\<^verbatim>\<open>0 / 0\<close>, a NaN,
  when every entry is a NaN or the array is empty).
  \<^verbatim>\<open>np.mean\<close>: the plain sum divided by the number of entries.
  Addition in this model is associative and commutative (\<open>fadd_assoc\<close>,
  \<open>fadd_commute\<close> below), so the order in which NumPy adds the entries does not
  matter here.
\<close>

primrec fsum :: "fval list \<Rightarrow> fval" where
  "fsum [] = Fin 0"
| "fsum (x # xs) = fadd x (fsum xs)"

definition nan_to_zero :: "fval \<Rightarrow> fval" where
  "nan_to_zero x = (if x = NaN then Fin 0 else x)"

definition nansum :: "fval list \<Rightarrow> fval" where
  "nansum xs = fsum (map nan_to_zero xs)"

definition count_not_nan :: "fval list \<Rightarrow> int" where
  "count_not_nan xs = int (length (filter (\<lambda>x. x \<noteq> NaN) xs))"

definition nanmean :: "fval list \<Rightarrow> fval" where
  "nanmean xs = fdiv (nansum xs) (of_count (count_not_nan xs))"

definition fmean :: "fval list \<Rightarrow> fval" where
  "fmean xs = fdiv (fsum xs) (of_count (int (length xs)))"

section \<open>compute\_fvar on a one-dimensional series\<close>

text \<open>
  \<^verbatim>\<open>compute_fvar(flux, flux_err, axis=0)\<close> for one-dimensional \<^verbatim>\<open>flux\<close> and
  \<^verbatim>\<open>flux_err\<close>: every reduction yields a scalar, so no broadcasting takes place and
  no shape error can arise. The intermediate variables keep the names of the source.
\<close>

definition fvar_s_square :: "fval list \<Rightarrow> fval" where
  "fvar_s_square flux =
     (let flux_mean = nanmean flux;
          n_points = count_not_nan flux
      in fdiv (nansum (map (\<lambda>x. fsq (fsub x flux_mean)) flux)) (of_count (n_points - 1)))"

definition sig_square :: "fval list \<Rightarrow> fval list \<Rightarrow> fval" where
  "sig_square flux flux_err =
     (let n_points = count_not_nan flux
      in fdiv (nansum (map fsq flux_err)) (of_count n_points))"

text \<open>
  Lines 58 to 61 of the source, shared word for word by \<^verbatim>\<open>compute_fvar\<close> and
  \<^verbatim>\<open>compute_fpp\<close> (lines 112 to 115): the propagated uncertainty of the statistic
  \<open>f\<close>.
\<close>

definition sigxserr_a :: "int \<Rightarrow> fval \<Rightarrow> fval \<Rightarrow> fval" where
  "sigxserr_a n_points sig_sq flux_mean =
     fdiv (fmul (fsqrt (fdiv (Fin 2) (of_count n_points))) sig_sq) (fsq flux_mean)"

definition sigxserr_b :: "int \<Rightarrow> fval \<Rightarrow> fval \<Rightarrow> fval \<Rightarrow> fval" where
  "sigxserr_b n_points sig_sq flux_mean f =
     fmul (fsqrt (fdiv sig_sq (of_count n_points))) (fdiv (fmul (Fin 2) f) flux_mean)"

definition stat_err :: "int \<Rightarrow> fval \<Rightarrow> fval \<Rightarrow> fval \<Rightarrow> fval" where
  "stat_err n_points sig_sq flux_mean f =
     (let a = sigxserr_a n_points sig_sq flux_mean;
          b = sigxserr_b n_points sig_sq flux_mean f;
          sigxserr = fsqrt (fadd (fsq a) (fsq b))
      in fdiv sigxserr (fmul (Fin 2) f))"

definition compute_fvar :: "fval list \<Rightarrow> fval list \<Rightarrow> fval \<times> fval" where
  "compute_fvar flux flux_err =
     (let flux_mean = nanmean flux;
          n_points = count_not_nan flux;
          s_square = fvar_s_square flux;
          sig_sq = sig_square flux flux_err;
          fvar = fdiv (fsqrt (fabs (fsub s_square sig_sq))) flux_mean;
          fvar_err = stat_err n_points sig_sq flux_mean fvar
      in (fvar, fvar_err))"

section \<open>compute\_fpp on a one-dimensional series\<close>

text \<open>
  For a one-dimensional \<^verbatim>\<open>flux\<close>, \<^verbatim>\<open>flux.swapaxes(0, 0).T\<close> is \<^verbatim>\<open>flux\<close>
  itself, and \<^verbatim>\<open>flux[..., 1:] - flux[..., :-1]\<close> is the list of first differences
  (empty when the series has fewer than two entries). \<^verbatim>\<open>n_points\<close> is computed on
  line 103, before the reorientation of line 104.
\<close>

definition diffs :: "fval list \<Rightarrow> fval list" where
  "diffs flux = map2 fsub (tl flux) (butlast flux)"

definition fpp_divisor :: "fval list \<Rightarrow> int" where
  "fpp_divisor flux = count_not_nan flux - 1"

definition fpp_s_square :: "fval list \<Rightarrow> fval" where
  "fpp_s_square flux =
     fdiv (nansum (map fsq (diffs flux))) (of_count (fpp_divisor flux))"


text \<open>The difference terms that are not NaN, that is, the terms the sum really adds.\<close>

definition valid_diffs :: "fval list \<Rightarrow> int" where
  "valid_diffs flux = count_not_nan (diffs flux)"

section \<open>compute\_chisq\<close>

text \<open>
  Modelled from the spec: \<^verbatim>\<open>scipy.stats.chisquare\<close>, the chi-square
  goodness-of-fit test this module delegates to, is not part of the repository. The
  spec describes it as the statistic \<^verbatim>\<open>sum((obs - exp)**2 / exp)\<close> together with
  a look-up of the chi-square survival function at that statistic, with
  (number of observations - 1) degrees of freedom. The survival function itself is a
  parameter \<open>sf\<close> (degrees of freedom, then a positive real argument); what is fixed
  here is only what holds for every distribution on the positive half-line and for
  every IEEE-754 special function: the value is 1 at and below zero, 0 at plus
  infinity, NaN at NaN, and NaN when the degrees of freedom are not positive.
\<close>

definition chi2_sf :: "(int \<Rightarrow> real \<Rightarrow> real) \<Rightarrow> int \<Rightarrow> fval \<Rightarrow> fval" where
  "chi2_sf sf df x =
     (if df \<le> 0 then NaN
      else case x of
             NaN \<Rightarrow> NaN
           | PInf \<Rightarrow> Fin 0
           | NInf \<Rightarrow> Fin 1
           | Fin r \<Rightarrow> (if r \<le> 0 then Fin 1 else Fin (sf df r)))"

text \<open>
  Modelled from the spec: the test itself, \<^verbatim>\<open>chisquare(f_obs, f_exp)\<close> with a scalar
  \<^verbatim>\<open>f_exp\<close> that stands for the expected value of every observation.
\<close>

definition chisquare :: "(int \<Rightarrow> real \<Rightarrow> real) \<Rightarrow> fval list \<Rightarrow> fval \<Rightarrow> fval \<times> fval" where
  "chisquare sf f_obs f_exp =
     (let stat = fsum (map (\<lambda>obs. fdiv (fsq (fsub obs f_exp)) f_exp) f_obs)
      in (stat, chi2_sf sf (int (length f_obs) - 1) stat))"

text \<open>
  \<^verbatim>\<open>compute_chisq(flux)\<close> for a one-dimensional \<^verbatim>\<open>flux\<close>: the expected value
  is the plain mean, a scalar that the test broadcasts to every observation.
\<close>

definition compute_chisq :: "(int \<Rightarrow> real \<Rightarrow> real) \<Rightarrow> fval list \<Rightarrow> fval \<times> fval" where
  "compute_chisq sf flux =
     (let yexp = fmean flux;
          yobs = flux
      in chisquare sf yobs yexp)"

section \<open>Two-dimensional arrays\<close>

text \<open>
  A two-dimensional array is the list of its rows; it is rectangular when it has at
  least one row and all rows have one and the same positive length. A reduction along
  axis 0 works on the columns, a reduction along axis 1 on the rows; any other axis is
  rejected by NumPy (the only exception modelled is this family of shape and axis
  errors, as \<open>None\<close>).
\<close>

definition ncols :: "'a list list \<Rightarrow> nat" where
  "ncols A = (case A of [] \<Rightarrow> 0 | row # _ \<Rightarrow> length row)"

definition rect :: "'a list list \<Rightarrow> bool" where
  "rect A = (A \<noteq> [] \<and> 0 < ncols A \<and> list_all (\<lambda>row. length row = ncols A) A)"

definition col :: "'a list list \<Rightarrow> nat \<Rightarrow> 'a list" where
  "col A j = map (\<lambda>row. row ! j) A"

definition transp :: "'a list list \<Rightarrow> 'a list list" where
  "transp A = map (col A) [0..<ncols A]"

definition reduce :: "nat \<Rightarrow> (fval list \<Rightarrow> 'b) \<Rightarrow> fval list list \<Rightarrow> 'b list option" where
  "reduce axis f A =
     (if axis = 0 then Some (map f (transp A))
      else if axis = 1 then Some (map f A)
      else None)"

text \<open>
  NumPy's broadcasting of an elementwise operation. Two one-dimensional operands must
  have equal lengths unless one of them has length 1. A two-dimensional operand of
  shape \<open>(r, c)\<close> and a one-dimensional one of length \<open>k\<close> are aligned on the
  trailing dimension: \<open>k = c\<close> pairs every row with the vector, \<open>k = 1\<close> uses the
  single entry everywhere, \<open>c = 1\<close> yields shape \<open>(r, k)\<close>; every other
  combination raises \<^verbatim>\<open>ValueError\<close>.
\<close>

definition bc11 :: "('a \<Rightarrow> 'b \<Rightarrow> 'c) \<Rightarrow> 'a list \<Rightarrow> 'b list \<Rightarrow> 'c list option" where
  "bc11 f u v =
     (if length u = length v then Some (map2 f u v)
      else if length v = 1 then Some (map (\<lambda>x. f x (v ! 0)) u)
      else if length u = 1 then Some (map (f (u ! 0)) v)
      else None)"

definition bc21 :: "('a \<Rightarrow> 'b \<Rightarrow> 'c) \<Rightarrow> 'a list list \<Rightarrow> 'b list \<Rightarrow> 'c list list option" where
  "bc21 f A v =
     (if length v = ncols A then Some (map (\<lambda>row. map2 f row v) A)
      else if length v = 1 then Some (map (map (\<lambda>x. f x (v ! 0))) A)
      else if ncols A = 1 then Some (map (\<lambda>row. map (f (row ! 0)) v) A)
      else None)"

section \<open>compute\_fvar on a two-dimensional array\<close>

text \<open>
  The same source lines 51 to 63, now with \<^verbatim>\<open>flux\<close> and \<^verbatim>\<open>flux_err\<close>
  two-dimensional and \<^verbatim>\<open>axis\<close> given. The reductions drop the reduced axis
  (\<^verbatim>\<open>keepdims\<close> is not set), so \<^verbatim>\<open>flux_mean\<close> and \<^verbatim>\<open>n_points\<close> are
  one-dimensional, and \<^verbatim>\<open>flux - flux_mean\<close> on line 54 is a broadcast of a
  two-dimensional array with a one-dimensional one.
\<close>

definition compute_fvar_2d ::
  "nat \<Rightarrow> fval list list \<Rightarrow> fval list list \<Rightarrow> (fval list \<times> fval list) option" where
  "compute_fvar_2d axis flux flux_err = do {
     flux_mean \<leftarrow> reduce axis nanmean flux;
     n_points \<leftarrow> reduce axis count_not_nan flux;
     dev \<leftarrow> bc21 fsub flux flux_mean;
     dev_sum \<leftarrow> reduce axis nansum (map (map fsq) dev);
     s_square \<leftarrow> bc11 fdiv dev_sum (map (\<lambda>n. of_count (n - 1)) n_points);
     err_sum \<leftarrow> reduce axis nansum (map (map fsq) flux_err);
     sig_sq \<leftarrow> bc11 fdiv err_sum (map of_count n_points);
     excess \<leftarrow> bc11 fsub s_square sig_sq;
     fvar \<leftarrow> bc11 fdiv (map (\<lambda>x. fsqrt (fabs x)) excess) flux_mean;
     a_num \<leftarrow> bc11 fmul (map (\<lambda>n. fsqrt (fdiv (Fin 2) (of_count n))) n_points) sig_sq;
     a \<leftarrow> bc11 fdiv a_num (map fsq flux_mean);
     b_rad \<leftarrow> bc11 fdiv sig_sq (map of_count n_points);
     b_fac \<leftarrow> bc11 fdiv (map (fmul (Fin 2)) fvar) flux_mean;
     b \<leftarrow> bc11 fmul (map fsqrt b_rad) b_fac;
     sq_sum \<leftarrow> bc11 fadd (map fsq a) (map fsq b);
     fvar_err \<leftarrow> bc11 fdiv (map fsqrt sq_sum) (map (fmul (Fin 2)) fvar);
     Some (fvar, fvar_err)
   }"

section \<open>compute\_fpp on a two-dimensional array\<close>

text \<open>
  Source lines 102 to 117 with a two-dimensional \<^verbatim>\<open>flux\<close>. The mean and the count
  are taken on the original orientation (lines 102 and 103); then
  \<^verbatim>\<open>flux.swapaxes(0, axis).T\<close> makes the reduction axis the last one: for axis 0 it is
  the transpose, for axis 1 the transpose of the transpose. The differences of line 106
  are taken within each row of the reoriented array; \<^verbatim>\<open>n_points.T\<close> and
  \<^verbatim>\<open>s_square.T\<close> are one-dimensional and so unchanged by \<^verbatim>\<open>.T\<close>.
\<close>


definition compute_fpp_2d ::
  "nat \<Rightarrow> fval list list \<Rightarrow> fval list list \<Rightarrow> (fval list \<times> fval list) option" where
  "compute_fpp_2d axis flux flux_err = do {
     flux_mean \<leftarrow> reduce axis nanmean flux;
     n_points \<leftarrow> reduce axis count_not_nan flux;
     flux_t \<leftarrow> (if axis = 0 then Some (transp flux)
                else if axis = 1 then Some (transp (transp flux))
                else None);
     let diff_sum = map (\<lambda>row. nansum (map fsq (diffs row))) flux_t;
     s_square \<leftarrow> bc11 fdiv diff_sum (map (\<lambda>n. of_count (n - 1)) n_points);
     err_sum \<leftarrow> reduce axis nansum (map (map fsq) flux_err);
     sig_sq \<leftarrow> bc11 fdiv err_sum (map of_count n_points);
     excess \<leftarrow> bc11 fsub s_square sig_sq;
     fpp \<leftarrow> bc11 fdiv (map (\<lambda>x. fsqrt (fabs x)) excess) flux_mean;
     a_num \<leftarrow> bc11 fmul (map (\<lambda>n. fsqrt (fdiv (Fin 2) (of_count n))) n_points) sig_sq;
     a \<leftarrow> bc11 fdiv a_num (map fsq flux_mean);
     b_rad \<leftarrow> bc11 fdiv sig_sq (map of_count n_points);
     b_fac \<leftarrow> bc11 fdiv (map (fmul (Fin 2)) fpp) flux_mean;
     b \<leftarrow> bc11 fmul (map fsqrt b_rad) b_fac;
     sq_sum \<leftarrow> bc11 fadd (map fsq a) (map fsq b);
     fpp_err \<leftarrow> bc11 fdiv (map fsqrt sq_sum) (map (fmul (Fin 2)) fpp);
     Some (fpp, fpp_err)
   }"

section \<open>The formulas of the specification\<close>

text \<open>
  The specification's definition of the fractional excess variance of one series,
  written from its words: the mean and the count ignore the NaN entries of the flux,
  the sample variance adds the squared deviations with NaN terms left out, and the
  mean-square error adds the squared errors with the summation \<open>err_sum\<close>, which
  is the plain sum in the specification.
\<close>

definition drop_nan :: "fval list \<Rightarrow> fval list" where
  "drop_nan xs = filter (\<lambda>x. x \<noteq> NaN) xs"

definition spec_fvar ::
  "(fval list \<Rightarrow> fval) \<Rightarrow> fval list \<Rightarrow> fval list \<Rightarrow> fval \<times> fval" where
  "spec_fvar err_sum flux flux_err =
     (let n = Fin (real (length (drop_nan flux)));
          mean = fdiv (fsum (drop_nan flux)) n;
          S2 = fdiv (fsum (drop_nan (map (\<lambda>x. fsq (fsub x mean)) flux))) (fsub n (Fin 1));
          sigma2 = fdiv (err_sum (map fsq flux_err)) n;
          fvar = fdiv (fsqrt (fabs (fsub S2 sigma2))) mean;
          a = fdiv (fmul (fsqrt (fdiv (Fin 2) n)) sigma2) (fsq mean);
          b = fmul (fsqrt (fdiv sigma2 n)) (fdiv (fmul (Fin 2) fvar) mean)
      in (fvar, fdiv (fsqrt (fadd (fsq a) (fsq b))) (fmul (Fin 2) fvar)))"


section \<open>Facts about the arithmetic and the reductions\<close>

lemma fadd_commute: "fadd x y = fadd y x"
  by (cases x; cases y) simp_all

lemma fadd_assoc: "fadd (fadd x y) z = fadd x (fadd y z)"
  by (cases x; cases y; cases z) simp_all

lemma fadd_zero_left [simp]: "fadd (Fin 0) x = x"
  by (cases x) simp_all

lemma fadd_zero_right [simp]: "fadd x (Fin 0) = x"
  by (cases x) simp_all

lemma fdiv_NaN_right [simp]: "fdiv x NaN = NaN"
  by (cases x) simp_all

lemma fadd_NaN_right [simp]: "fadd x NaN = NaN"
  by (cases x) simp_all

lemma fmul_NaN_right [simp]: "fmul x NaN = NaN"
  by (cases x) simp_all

lemma fsub_NaN [simp]: "fsub NaN y = NaN" "fsub x NaN = NaN"
  by (simp_all add: fsub_def)

lemma fsq_eq_NaN [simp]: "fsq x = NaN \<longleftrightarrow> x = NaN"
  by (cases x) (simp_all add: fsq_def signed_inf_def)

lemma fsq_Fin [simp]: "fsq (Fin a) = Fin (a * a)"
  by (simp add: fsq_def)

lemma fsub_Fin [simp]: "fsub (Fin a) (Fin b) = Fin (a - b)"
  by (simp add: fsub_def)

lemma is_fin_conv: "is_fin x \<longleftrightarrow> (\<exists>a. x = Fin a)"
  by (cases x) simp_all

lemma fsum_NaN: "NaN \<in> set xs \<Longrightarrow> fsum xs = NaN"
  by (induction xs) auto



text \<open>The NaN-aware sum is the plain sum of the entries that are not NaN.\<close>

lemma nansum_drop_nan: "nansum xs = fsum (drop_nan xs)"
  by (induction xs) (simp_all add: nansum_def drop_nan_def nan_to_zero_def)

lemma count_not_nan_drop_nan: "count_not_nan xs = int (length (drop_nan xs))"
  by (simp add: count_not_nan_def drop_nan_def)

lemma of_count_pred: "of_count (int n - 1) = fsub (Fin (real n)) (Fin 1)"
  by (simp add: of_count_def fsub_def)




lemmas eval_defs = nansum_def nan_to_zero_def count_not_nan_def nanmean_def fmean_def
  of_count_def fsub_def fsq_def signed_inf_def Let_def drop_nan_def

section \<open>Facts about two-dimensional arrays\<close>

lemma rect_row_length: "rect A \<Longrightarrow> row \<in> set A \<Longrightarrow> length row = ncols A"
  by (simp add: rect_def list_all_iff)

lemma ncols_map: "A \<noteq> [] \<Longrightarrow> ncols (map g A) = length (g (hd A))"
  by (cases A) (simp_all add: ncols_def)

lemma reduce0: "reduce 0 f A = Some (map (\<lambda>j. f (col A j)) [0..<ncols A])"
  by (simp add: reduce_def transp_def)

lemma bc11_upt:
  "bc11 f (map g [0..<c]) (map h [0..<c]) = Some (map (\<lambda>j. f (g j) (h j)) [0..<c])"
  by (simp add: bc11_def zip_map_map zip_same_conv_map)

lemma bc21_rows:
  "length v = ncols A \<Longrightarrow> bc21 f A v = Some (map (\<lambda>row. map2 f row v) A)"
  by (simp add: bc21_def)

lemma col_dev:
  assumes "rect A" "length v = ncols A" "j < ncols A"
  shows "col (map (map g) (map (\<lambda>row. map2 f row v) A)) j = map (\<lambda>x. g (f x (v ! j))) (col A j)"
  using assms by (auto simp: col_def rect_row_length)

lemma ncols_dev:
  assumes "rect A" "length v = ncols A"
  shows "ncols (map (map g) (map (\<lambda>row. map2 f row v) A)) = ncols A"
proof -
  from assms(1) have ne: "A \<noteq> []" by (simp add: rect_def)
  then have "hd A \<in> set A" by simp
  with assms(1) have "length (hd A) = ncols A" by (rule rect_row_length)
  with ne assms(2) show ?thesis by (simp add: ncols_map)
qed

lemma reduce0_dev:
  assumes "rect A" "length v = ncols A"
  shows "reduce 0 h (map (map g) (map (\<lambda>row. map2 f row v) A))
         = Some (map (\<lambda>j. h (map (\<lambda>x. g (f x (v ! j))) (col A j))) [0..<ncols A])"
  using assms by (simp add: reduce0 ncols_dev col_dev del: map_map)

lemma col_map: "rect A \<Longrightarrow> j < ncols A \<Longrightarrow> col (map (map g) A) j = map g (col A j)"
  by (auto simp: col_def rect_row_length)

lemma ncols_map_map: "ncols (map (map g) A) = ncols A"
  by (cases A) (simp_all add: ncols_def)

lemma reduce0_map:
  "rect A \<Longrightarrow> reduce 0 h (map (map g) A) = Some (map (\<lambda>j. h (map g (col A j))) [0..<ncols A])"
  by (simp add: reduce0 ncols_map_map col_map)

text \<open>
  Along axis 0 the array code is the one-dimensional code applied to every column:
  all broadcasts pair arrays of equal length, and none of them fails.
\<close>

lemma compute_fvar_2d_axis0:
  assumes "rect flux" "rect flux_err" "ncols flux_err = ncols flux"
  shows "compute_fvar_2d 0 flux flux_err =
         Some (map (\<lambda>j. fst (compute_fvar (col flux j) (col flux_err j))) [0..<ncols flux],
               map (\<lambda>j. snd (compute_fvar (col flux j) (col flux_err j))) [0..<ncols flux])"
proof -
  let ?c = "ncols flux"
  have dev: "bc21 fsub flux (map (\<lambda>j. nanmean (col flux j)) [0..<?c])
             = Some (map (\<lambda>row. map2 fsub row (map (\<lambda>j. nanmean (col flux j)) [0..<?c])) flux)"
    by (simp add: bc21_rows)
  have dev_sum: "reduce 0 nansum (map (map fsq)
                   (map (\<lambda>row. map2 fsub row (map (\<lambda>j. nanmean (col flux j)) [0..<?c])) flux))
             = Some (map (\<lambda>j. nansum (map (\<lambda>x. fsq (fsub x (nanmean (col flux j)))) (col flux j))) [0..<?c])"
    using assms(1) by (simp add: reduce0_dev del: map_map)
  have err_sum: "reduce 0 nansum (map (map fsq) flux_err)
             = Some (map (\<lambda>j. nansum (map fsq (col flux_err j))) [0..<?c])"
    using assms(2,3) by (simp add: reduce0_map)
  show ?thesis
    unfolding compute_fvar_2d_def
    apply (simp only: reduce0 [of nanmean flux] reduce0 [of count_not_nan flux] bind.bind_lunit)
    apply (simp only: dev bind.bind_lunit)
    apply (simp only: dev_sum err_sum bind.bind_lunit)
    apply (simp only: bind.bind_lunit map_map o_def bc11_upt)
    apply (simp add: compute_fvar_def fvar_s_square_def sig_square_def stat_err_def
        sigxserr_a_def sigxserr_b_def Let_def)
    done
qed

section \<open>The formula of compute\_fvar\<close>

lemma compute_fvar_spec: "compute_fvar flux flux_err = spec_fvar nansum flux flux_err"
  by (simp add: compute_fvar_def spec_fvar_def fvar_s_square_def sig_square_def stat_err_def
      sigxserr_a_def sigxserr_b_def nanmean_def nansum_drop_nan count_not_nan_drop_nan
      of_count_pred Let_def) (simp add: of_count_def)

text \<open>
  Claim C1, as amended. For a one-dimensional series, and for every column of a
  rectangular two-dimensional array reduced along axis 0, \<^verbatim>\<open>compute_fvar\<close> returns
  the pair \<open>(fvar, fvar_err)\<close> of the specification's formula: \<open>fvar\<close> is the
  square root of \<open>|S\<^sup>2 - \<sigma>\<^sup>2|\<close> over the NaN-aware mean, \<open>S\<^sup>2\<close> adds the squared
  deviations with the NaN terms left out and divides by the count of non-NaN flux
  entries minus one, and the error term follows from \<open>a\<close> and \<open>b\<close> as written
  there; the mean-square error \<open>\<sigma>\<^sup>2\<close> adds the squared errors with the NaN-aware
  sum, not with the plain one.
\<close>

theorem compute_fvar_formula:
  "compute_fvar flux flux_err = spec_fvar nansum flux flux_err
   \<and> (rect A \<and> rect E \<and> ncols E = ncols A \<longrightarrow>
        compute_fvar_2d 0 A E =
          Some (map (\<lambda>j. fst (spec_fvar nansum (col A j) (col E j))) [0..<ncols A],
                map (\<lambda>j. snd (spec_fvar nansum (col A j) (col E j))) [0..<ncols A]))"
  by (simp add: compute_fvar_2d_axis0 compute_fvar_spec)

theorem compute_fvar_formula_witness:
  "rect [[Fin 1, Fin 2], [Fin 5, NaN]] \<and> rect [[Fin 2, NaN], [Fin 2, Fin 0]]
   \<and> ncols [[Fin 2, NaN], [Fin 2, Fin 0]] = ncols [[Fin 1, Fin 2], [Fin 5, NaN]]
   \<and> compute_fvar_2d 0 [[Fin 1, Fin 2], [Fin 5, NaN]] [[Fin 2, NaN], [Fin 2, Fin 0]] =
       Some ([fst (spec_fvar nansum [Fin 1, Fin 5] [Fin 2, Fin 2]),
              fst (spec_fvar nansum [Fin 2, NaN] [NaN, Fin 0])],
             [snd (spec_fvar nansum [Fin 1, Fin 5] [Fin 2, Fin 2]),
              snd (spec_fvar nansum [Fin 2, NaN] [NaN, Fin 0])])"
  using compute_fvar_formula [of "[]" "[]" "[[Fin 1, Fin 2], [Fin 5, NaN]]" "[[Fin 2, NaN], [Fin 2, Fin 0]]"]
  by (simp add: rect_def ncols_def col_def upt_rec numeral_2_eq_2)

text \<open>
  With the plain sum of the specification the formula gives a NaN where the code,
  for the errors \<open>[NaN, 2]\<close> of the fluxes \<open>[1, 5]\<close>, returns a number.
\<close>

theorem compute_fvar_plain_error_sum_counterexample:
  "fst (compute_fvar [Fin 1, Fin 5] [NaN, Fin 2]) = Fin (sqrt 6 / 3)
   \<and> fst (spec_fvar fsum [Fin 1, Fin 5] [NaN, Fin 2]) = NaN"
  by (simp add: compute_fvar_def spec_fvar_def sig_square_def fvar_s_square_def eval_defs)

section \<open>The mean-square error and NaN entries of the errors\<close>





section \<open>The first differences of compute\_fpp\<close>

lemma diffs_simps [simp]:
  "diffs [] = []" "diffs [x] = []" "diffs (x # y # zs) = fsub y x # diffs (y # zs)"
  by (simp_all add: diffs_def)

lemma count_not_nan_simps [simp]:
  "count_not_nan [] = 0"
  "count_not_nan (x # xs) = (if x = NaN then 0 else 1) + count_not_nan xs"
  by (simp_all add: count_not_nan_def)

lemma count_not_nan_append [simp]:
  "count_not_nan (xs @ ys) = count_not_nan xs + count_not_nan ys"
  by (simp add: count_not_nan_def)

lemma count_not_nan_fin: "list_all is_fin xs \<Longrightarrow> count_not_nan xs = int (length xs)"
  by (induction xs) (auto simp: is_fin_conv)






section \<open>The divisor of compute\_fpp\<close>

lemma valid_diffs_fin:
  "list_all is_fin zs \<Longrightarrow> zs \<noteq> [] \<Longrightarrow> valid_diffs zs = int (length zs) - 1"
  by (induction zs rule: induct_list012) (auto simp: valid_diffs_def is_fin_conv)

text \<open>A NaN entry makes both differences it takes part in NaN.\<close>

lemma valid_diffs_split:
  "valid_diffs (xs @ NaN # ys) = valid_diffs xs + valid_diffs ys"
proof (induction xs rule: induct_list012)
  case 1
  show ?case by (cases ys) (simp_all add: valid_diffs_def)
next
  case (2 x)
  show ?case by (cases ys) (simp_all add: valid_diffs_def)
next
  case (3 x y zs)
  then show ?case by (simp add: valid_diffs_def)
qed

text \<open>
  Claim C10, as amended. In \<^verbatim>\<open>compute_fpp\<close> the denominator of \<open>S\<^sup>2\<close> is always
  the count of non-NaN flux entries minus one, not the number of difference terms that
  are summed. For every flux whose only NaN is a single interior one, all other entries
  being finite, the divisor exceeds the number of valid (non-NaN) differences by
  exactly one.
\<close>

theorem fpp_divisor_single_interior_nan:
  "fpp_s_square flux = fdiv (nansum (map fsq (diffs flux))) (of_count (count_not_nan flux - 1))
   \<and> (xs \<noteq> [] \<and> ys \<noteq> [] \<and> list_all is_fin xs \<and> list_all is_fin ys \<longrightarrow>
        fpp_divisor (xs @ NaN # ys) = valid_diffs (xs @ NaN # ys) + 1)"
  by (simp add: fpp_s_square_def fpp_divisor_def valid_diffs_split valid_diffs_fin count_not_nan_fin)

theorem fpp_divisor_single_interior_nan_witness:
  "[Fin 1] \<noteq> [] \<and> [Fin 3, Fin 5] \<noteq> [] \<and> list_all is_fin [Fin 1] \<and> list_all is_fin [Fin 3, Fin 5]
   \<and> fpp_divisor [Fin 1, NaN, Fin 3, Fin 5] = 2 \<and> valid_diffs [Fin 1, NaN, Fin 3, Fin 5] = 1"
  using fpp_divisor_single_interior_nan [of "[]" "[Fin 1]" "[Fin 3, Fin 5]"]
  by (simp add: fpp_divisor_def)

text \<open>
  With two interior NaNs, \<open>[1, NaN, 3, NaN, 5]\<close>, the divisor is 2 and no difference
  is valid: the divisor exceeds the number of valid differences by two.
\<close>

theorem fpp_divisor_two_interior_nans_counterexample:
  "fpp_divisor [Fin 1, NaN, Fin 3, NaN, Fin 5] = 2
   \<and> valid_diffs [Fin 1, NaN, Fin 3, NaN, Fin 5] = 0"
  by (simp add: fpp_divisor_def valid_diffs_def)

section \<open>Series that are constant, empty of values, or single-valued\<close>

lemma nansum_simps [simp]:
  "nansum [] = Fin 0"
  "nansum (x # xs) = fadd (nan_to_zero x) (nansum xs)"
  by (simp_all add: nansum_def)

lemma nan_to_zero_simps [simp]:
  "nan_to_zero NaN = Fin 0" "x \<noteq> NaN \<Longrightarrow> nan_to_zero x = x"
  by (simp_all add: nan_to_zero_def)

lemma count_not_nan_nonneg: "0 \<le> count_not_nan xs"
  by (simp add: count_not_nan_def)


lemma count_not_nan_succ [simp]: "1 + count_not_nan xs \<noteq> 0"
  using count_not_nan_nonneg [of xs] by linarith


lemma fsq_NaN [simp]: "fsq NaN = NaN"
  by (simp add: fsq_def)













section \<open>The absolute-value guard\<close>





section \<open>Degenerate inputs of compute\_fvar\<close>




lemma stat_err_NaN [simp]: "stat_err n s m NaN = NaN"
  by (simp add: stat_err_def Let_def)







section \<open>compute\_chisq\<close>







text \<open>A NaN among the observations makes the plain mean NaN, and with it every term.\<close>

lemma chisq_terms_nan:
  "flux \<noteq> [] \<Longrightarrow> fsum (map (\<lambda>obs. fdiv (fsq (fsub obs NaN)) NaN) flux) = NaN"
  by (cases flux) simp_all

text \<open>
  Claim C9. \<^verbatim>\<open>compute_chisq\<close> handles no missing values: for every series that
  contains a NaN, the returned statistic and p-value are both NaN, and nothing is
  raised.
\<close>

theorem compute_chisq_nan_propagates:
  "NaN \<in> set flux \<Longrightarrow> compute_chisq sf flux = (NaN, NaN)"
proof -
  assume n: "NaN \<in> set flux"
  then have ne: "flux \<noteq> []" by auto
  from n have m: "fmean flux = NaN" by (simp add: fmean_def fsum_NaN)
  from ne have st: "fsum (map (\<lambda>obs. fdiv (fsq (fsub obs NaN)) NaN) flux) = NaN"
    by (rule chisq_terms_nan)
  have "compute_chisq sf flux = (NaN, chi2_sf sf (int (length flux) - 1) NaN)"
    by (simp only: compute_chisq_def chisquare_def Let_def m st)
  then show ?thesis by (simp add: chi2_sf_def)
qed

theorem compute_chisq_nan_propagates_witness:
  "NaN \<in> set [Fin 5, NaN, Fin 5, Fin 50]
   \<and> (\<forall>sf. compute_chisq sf [Fin 5, NaN, Fin 5, Fin 50] = (NaN, NaN))"
  using compute_chisq_nan_propagates [of "[Fin 5, NaN, Fin 5, Fin 50]"] by simp

section \<open>The reduction axis and the transposed array\<close>

lemma length_transp [simp]: "length (transp A) = ncols A"
  by (simp add: transp_def)

lemma length_col [simp]: "length (col A j) = length A"
  by (simp add: col_def)

lemma ncols_transp: "0 < ncols A \<Longrightarrow> ncols (transp A) = length A"
  by (simp add: transp_def ncols_def upt_conv_Cons split: list.splits)

lemma rect_transp: "rect A \<Longrightarrow> rect (transp A)"
  by (auto simp: rect_def ncols_transp list_all_iff) (auto simp: transp_def)

lemma transp_transp: "rect A \<Longrightarrow> transp (transp A) = A"
proof -
  assume r: "rect A"
  then have c: "0 < ncols A" by (simp add: rect_def)
  have "col (transp A) i = A ! i" if "i < length A" for i
  proof -
    from that have "A ! i \<in> set A" by simp
    with r have len: "length (A ! i) = ncols A" by (rule rect_row_length)
    have "col (transp A) i = map (\<lambda>j. (A ! i) ! j) [0..<ncols A]"
      using that by (simp add: col_def transp_def)
    also have "\<dots> = A ! i" using len map_nth [of "A ! i"] by simp
    finally show ?thesis .
  qed
  then have "map (col (transp A)) [0..<length A] = map ((!) A) [0..<length A]"
    by simp
  then show ?thesis by (simp add: transp_def [of "transp A"] ncols_transp c map_nth)
qed

lemma transp_map_map: "rect A \<Longrightarrow> transp (map (map g) A) = map (map g) (transp A)"
  by (simp add: transp_def ncols_map_map col_map)

text \<open>
  \<^verbatim>\<open>compute_fpp\<close> gives the same result along axis 1 of the transposed arrays as
  along axis 0 of the arrays themselves.
\<close>

lemma compute_fpp_2d_axis_invariant:
  assumes "rect A" "rect E"
  shows "compute_fpp_2d 1 (transp A) (transp E) = compute_fpp_2d 0 A E"
proof -
  have t: "transp (transp (transp A)) = transp A"
    using assms(1) by (simp add: transp_transp)
  have e: "map (map fsq) (transp E) = transp (map (map fsq) E)"
    using assms(2) by (simp add: transp_map_map)
  show ?thesis
    unfolding compute_fpp_2d_def reduce_def t e by simp
qed

text \<open>
  Along axis 1 \<^verbatim>\<open>compute_fvar\<close> raises the shape error on every rectangular array
  that is not square and has more than one row and more than one column.
\<close>

lemma compute_fvar_2d_axis1_shape_error:
  assumes "length A \<noteq> ncols A" "length A \<noteq> 1" "ncols A \<noteq> 1"
  shows "compute_fvar_2d 1 A E = None"
  using assms by (simp add: compute_fvar_2d_def reduce_def bc21_def)

text \<open>
  Claim C4 fails for \<^verbatim>\<open>compute_fvar\<close>. On line 54 the mean, whose reduced axis is
  gone, is broadcast against the trailing axis of \<^verbatim>\<open>flux\<close>, which is the reduction
  axis itself when \<^verbatim>\<open>axis = 1\<close>. For the \<open>2 \<times> 3\<close> array with rows \<open>[1, 2, 3]\<close>
  and \<open>[5, 6, 7]\<close> and all errors 2, axis 0 gives \<open>fvar = [2/3, 1/2, 2/5]\<close>, while
  axis 1 on the transposed arrays is a shape error. For the square array with rows
  \<open>[1, 2]\<close> and \<open>[5, 6]\<close>, axis 0 gives \<open>[2/3, 1/2]\<close> and axis 1 on the
  transposed arrays gives \<open>[1/3, 1/4]\<close>.
\<close>

theorem compute_fvar_axis1_transposed:
  "map_option fst (compute_fvar_2d 0 [[Fin 1, Fin 2, Fin 3], [Fin 5, Fin 6, Fin 7]]
                                     [[Fin 2, Fin 2, Fin 2], [Fin 2, Fin 2, Fin 2]])
     = Some [Fin (2 / 3), Fin (1 / 2), Fin (2 / 5)]
   \<and> transp [[Fin 1, Fin 2, Fin 3], [Fin 5, Fin 6, Fin 7]] = [[Fin 1, Fin 5], [Fin 2, Fin 6], [Fin 3, Fin 7]]
   \<and> compute_fvar_2d 1 [[Fin 1, Fin 5], [Fin 2, Fin 6], [Fin 3, Fin 7]]
                        [[Fin 2, Fin 2], [Fin 2, Fin 2], [Fin 2, Fin 2]] = None
   \<and> map_option fst (compute_fvar_2d 0 [[Fin 1, Fin 2], [Fin 5, Fin 6]] [[Fin 2, Fin 2], [Fin 2, Fin 2]])
     = Some [Fin (2 / 3), Fin (1 / 2)]
   \<and> map_option fst (compute_fvar_2d 1 [[Fin 1, Fin 5], [Fin 2, Fin 6]] [[Fin 2, Fin 2], [Fin 2, Fin 2]])
     = Some [Fin (1 / 3), Fin (1 / 4)]"
  by (simp add: compute_fvar_2d_def reduce_def transp_def col_def ncols_def bc21_def bc11_def
      nanmean_def of_count_def fsq_def fsub_def upt_rec numeral_2_eq_2 numeral_3_eq_3)

end
